theory Spec2Isabelle
  imports Complex_Main "HOL-Library.Sublist"
begin

section \<open>Data model (frontend/src/types)\<close>

text \<open>
  The TypeScript interfaces are records. A JavaScript string is a list of characters;
  an optional field (\<open>stats?\<close>, \<open>error_message?\<close>) is an \<open>option\<close>, \<open>None\<close> standing
  for \<open>undefined\<close> and \<open>null\<close> alike. The status of a job and of each stage is a plain
  \<open>string\<close>, as the interfaces declare it.
\<close>

record JobStats =
  total_pages :: "nat option"
  total_blocks :: "nat option"
  total_characters_arabic :: "nat option"
  total_characters_english :: "nat option"

record ProcessingStages =
  extraction :: string
  ocr :: string
  translation :: string

record Job =
  job_id :: string
  status :: string
  original_filename :: string
  created_at :: string
  updated_at :: string
  stats :: "JobStats option"
  error_message :: "string option"
  processing_stages :: ProcessingStages

record TableMetadata =
  row :: "int option"
  col :: "int option"
  table_id :: "string option"

record BlockMetadata =
  bbox :: "real list option"
  is_heading :: "bool option"
  heading_level :: "int option"
  list_level :: "int option"
  table :: "TableMetadata option"
  confidence :: "real option"

record Block =
  block_id :: string
  block_type :: string
  block_metadata :: BlockMetadata
  block_text :: string

record Page =
  page_index :: int
  blocks :: "Block list"

record DocumentMetadata =
  source_filename :: string
  doc_total_pages :: int
  extraction_timestamp :: string
  ocr_engine :: "string option"
  processing_time_seconds :: "real option"

record StructuredDocument =
  document_id :: string
  language :: string
  pages :: "Page list"
  doc_metadata :: DocumentMetadata

record JobResult =
  result_job_id :: string
  arabic :: "StructuredDocument option"
  english :: "StructuredDocument option"

section \<open>JobStatusPage: status colour and progress\<close>

text \<open>
  \<open>getStatusColor\<close> is a \<open>switch\<close> on the status string with a \<open>default\<close> branch.
\<close>

definition getStatusColor :: "string \<Rightarrow> string" where
  "getStatusColor s =
     (if s = ''completed'' then ''success''
      else if s = ''failed'' then ''error''
      else if s = ''processing'' \<or> s = ''extracting'' \<or> s = ''ocr'' \<or> s = ''translating''
        then ''info''
      else ''default'')"

text \<open>
  \<open>getProgress\<close> reads the component's \<open>job\<close> state, which is \<open>null\<close> until the first
  response arrives. The body of the \<open>forEach\<close> callback is \<open>stageStep\<close>; the loop over
  the three-element array is a left fold starting from \<open>progress = 0\<close>. The decimal
  constants are exact rationals here; the comparisons of the source (\<open>Math.min\<close> with 99)
  never fall within rounding distance of a sum of these constants.
\<close>

definition stageStep :: "real \<Rightarrow> string \<Rightarrow> real" where
  "stageStep progress stage =
     (if stage = ''completed'' then progress + 33.33
      else if stage = ''in_progress'' then progress + 11.11
      else progress)"

definition getProgress :: "Job option \<Rightarrow> real" where
  "getProgress j =
     (case j of
        None \<Rightarrow> 0
      | Some job \<Rightarrow>
          if status job = ''completed'' then 100
          else if status job = ''failed'' then 0
          else
            let stages = [extraction (processing_stages job),
                          ocr (processing_stages job),
                          translation (processing_stages job)];
                progress = foldl stageStep 0 stages
            in min progress 99)"

text \<open>Counting the stages in a given state, as the claims phrase the formula.\<close>

definition stages_of :: "Job \<Rightarrow> string list" where
  "stages_of job = [extraction (processing_stages job),
                    ocr (processing_stages job),
                    translation (processing_stages job)]"

definition count_stages :: "string \<Rightarrow> Job \<Rightarrow> nat" where
  "count_stages s job = length (filter (\<lambda>x. x = s) (stages_of job))"

text \<open>
  Modelled from the spec: the job state machine (section 4.3) lives in the backend, which
  is not among the source files; only its consumer \<open>getProgress\<close> is. Successive
  snapshots of one job are related as the spec words it: each stage status either stays
  or advances \<open>pending \<rightarrow> in_progress \<rightarrow> completed\<close> (the skippable \<open>ocr\<close> stage may be
  recorded \<open>completed\<close> without having run); the job status either stays or moves one
  edge along \<open>queued \<rightarrow> extracting \<rightarrow> ocr \<rightarrow> translating \<rightarrow> completed\<close>, or moves to
  \<open>failed\<close> from a non-terminal state; a stage becomes \<open>failed\<close> only together with the
  job.
\<close>

definition stage_advance :: "string \<Rightarrow> string \<Rightarrow> bool" where
  "stage_advance a b \<longleftrightarrow>
     a = b \<or> (a = ''pending'' \<and> b = ''in_progress'') \<or> (a = ''in_progress'' \<and> b = ''completed'')"

definition stage_fails :: "string \<Rightarrow> string \<Rightarrow> bool" where
  "stage_fails a b \<longleftrightarrow> (a = ''pending'' \<or> a = ''in_progress'') \<and> b = ''failed''"

definition status_terminal :: "string \<Rightarrow> bool" where
  "status_terminal s \<longleftrightarrow> s = ''completed'' \<or> s = ''failed''"

definition status_advance :: "string \<Rightarrow> string \<Rightarrow> bool" where
  "status_advance a b \<longleftrightarrow>
     a = b
     \<or> (a = ''queued'' \<and> b = ''extracting'')
     \<or> (a = ''extracting'' \<and> b = ''ocr'')
     \<or> (a = ''ocr'' \<and> b = ''translating'')
     \<or> (a = ''translating'' \<and> b = ''completed'')
     \<or> (\<not> status_terminal a \<and> b = ''failed'')"

definition stage_step :: "string \<Rightarrow> bool \<Rightarrow> string \<Rightarrow> string \<Rightarrow> bool" where
  "stage_step status' skippable a b \<longleftrightarrow>
     stage_advance a b
     \<or> (skippable \<and> a = ''pending'' \<and> b = ''completed'')
     \<or> (status' = ''failed'' \<and> stage_fails a b)"

definition job_step :: "Job \<Rightarrow> Job \<Rightarrow> bool" where
  "job_step j j' \<longleftrightarrow>
     job_id j' = job_id j
     \<and> status_advance (status j) (status j')
     \<and> stage_step (status j') False
          (extraction (processing_stages j)) (extraction (processing_stages j'))
     \<and> stage_step (status j') True
          (ocr (processing_stages j)) (ocr (processing_stages j'))
     \<and> stage_step (status j') False
          (translation (processing_stages j)) (translation (processing_stages j'))"

text \<open>The closed enumeration of section 3 of the spec: the six status values.\<close>

definition status_enumeration :: "string list" where
  "status_enumeration =
     [''queued'', ''extracting'', ''ocr'', ''translating'', ''completed'', ''failed'']"

section \<open>Strings\<close>

text \<open>
  Characters are single code units and case mapping covers the ASCII letters:
  \<open>toLowerCase\<close> maps \<open>A\<close>..\<open>Z\<close> to \<open>a\<close>..\<open>z\<close>, and the canonicalisation a
  case-insensitive regular expression applies to both sides maps \<open>a\<close>..\<open>z\<close> to
  \<open>A\<close>..\<open>Z\<close>. \<open>String.prototype.includes\<close> is the contiguous-sublist test.
\<close>

definition toLowerChar :: "char \<Rightarrow> char" where
  "toLowerChar c =
     (let n = (of_char c :: nat)
      in if 65 \<le> n \<and> n \<le> 90 then char_of (n + 32) else c)"

definition canonicalize :: "char \<Rightarrow> char" where
  "canonicalize c =
     (let n = (of_char c :: nat)
      in if 97 \<le> n \<and> n \<le> 122 then char_of (n - 32) else c)"

definition toLowerCase :: "string \<Rightarrow> string" where
  "toLowerCase s = map toLowerChar s"

definition includesStr :: "string \<Rightarrow> string \<Rightarrow> bool" where
  "includesStr s q = sublist q s"

text \<open>
  \<open>s.split(c)\<close> for a one-character separator: the pieces between the occurrences of
  \<open>c\<close>, never an empty array. \<open>pop\<close> returns the last element, \<open>undefined\<close> on an empty
  array. \<open>join\<close> interleaves a separator.
\<close>

fun splitChar :: "char \<Rightarrow> string \<Rightarrow> string \<Rightarrow> string list" where
  "splitChar c seg [] = [seg]"
| "splitChar c seg (x # xs) =
     (if x = c then seg # splitChar c [] xs else splitChar c (seg @ [x]) xs)"

definition split :: "string \<Rightarrow> char \<Rightarrow> string list" where
  "split s c = splitChar c [] s"

definition pop :: "'a list \<Rightarrow> 'a option" where
  "pop xs = (if xs = [] then None else Some (last xs))"

fun join :: "string list \<Rightarrow> string \<Rightarrow> string" where
  "join [] sep = []"
| "join [x] sep = x"
| "join (x # y # ys) sep = x @ sep @ join (y # ys) sep"

section \<open>BlockHighlighter\<close>

text \<open>
  \<open>text.split(new RegExp(`(${query})`, 'gi'))\<close> for a query that is a literal pattern:
  the text is scanned from the left; where the query matches, ignoring case, the segment
  read so far and then the matched piece (the capture group) are emitted and the scan
  resumes behind the match; otherwise one character joins the segment. The last segment
  is emitted at the end, so the result is never empty.
\<close>

fun matchesAt :: "string \<Rightarrow> string \<Rightarrow> bool" where
  "matchesAt [] t = True"
| "matchesAt (p # ps) [] = False"
| "matchesAt (p # ps) (c # cs) = (canonicalize p = canonicalize c \<and> matchesAt ps cs)"

function splitCapture :: "string \<Rightarrow> string \<Rightarrow> string \<Rightarrow> string list" where
  "splitCapture q seg t =
     (if t = [] then [seg]
      else if q \<noteq> [] \<and> matchesAt q t
        then seg # take (length q) t # splitCapture q [] (drop (length q) t)
      else splitCapture q (seg @ [hd t]) (tl t))"
  by pat_completeness auto
termination
  by (relation "measure (\<lambda>(q, seg, t). length t)") auto

declare splitCapture.simps [simp del]

text \<open>
  The characters with a meaning of their own in a pattern. A query holding one of them
  does not denote the literal pattern (it may not even compile): \<open>highlightText\<close> is
  \<open>None\<close> there, outside what is modelled.
\<close>

definition syntaxCharacters :: "char list" where
  "syntaxCharacters = CHR 0x5C # ''^$.*+?()[]{}|''"

definition literalQuery :: "string \<Rightarrow> bool" where
  "literalQuery q \<longleftrightarrow> (\<forall>c \<in> set q. c \<notin> set syntaxCharacters)"

datatype Part = Plain string | Mark string

fun content :: "Part \<Rightarrow> string" where
  "content (Plain s) = s"
| "content (Mark s) = s"

fun isMark :: "Part \<Rightarrow> bool" where
  "isMark (Plain s) = False"
| "isMark (Mark s) = True"

datatype Highlighted = Unchanged string | Parts "Part list"

definition highlightText :: "string \<Rightarrow> string \<Rightarrow> Highlighted option" where
  "highlightText text query =
     (if query = [] then Some (Unchanged text)
      else if \<not> literalQuery query then None
      else Some (Parts (map (\<lambda>part. if toLowerCase part = toLowerCase query
                                     then Mark part else Plain part)
                            (splitCapture query [] text))))"

text \<open>
  What a rendered \<open>BlockHighlighter\<close> contributes to the page: the \<open>Paper\<close> element with
  its DOM id, whether it is drawn highlighted, the block id its \<open>onClick\<close> handler passes
  to \<open>handleBlockClick\<close>, and the highlighted text.
\<close>

datatype Language = ar | en

definition languageTag :: "Language \<Rightarrow> string" where
  "languageTag l = (if l = ar then ''ar'' else ''en'')"

definition blockElementId :: "Language \<Rightarrow> string \<Rightarrow> string" where
  "blockElementId l b = ''block-'' @ languageTag l @ ''-'' @ b"

record BlockElement =
  element_id :: string
  element_highlighted :: bool
  element_onClick :: string
  element_text :: Highlighted

text \<open>
  \<open>highlightText\<close> runs while the component renders. Where it is \<open>None\<close> there is no
  element: a pattern that does not compile makes \<open>new RegExp\<close> throw, and the render
  with it; one that compiles to something else than the literal pattern is outside what
  is modelled.
\<close>

definition BlockHighlighter ::
  "Block \<Rightarrow> Language \<Rightarrow> bool \<Rightarrow> string \<Rightarrow> BlockElement option" where
  "BlockHighlighter block l highlighted searchQuery =
     (case highlightText (block_text block) searchQuery of
        None \<Rightarrow> None
      | Some highlightedText \<Rightarrow>
          Some \<lparr> element_id = blockElementId l (block_id block),
                 element_highlighted = highlighted,
                 element_onClick = block_id block,
                 element_text = highlightedText \<rparr>)"

section \<open>ResultViewer\<close>

text \<open>
  The component's \<open>useState\<close> cells are one record. \<open>truthy\<close> is JavaScript's test of a
  possibly-null string in a condition: \<open>null\<close> and the empty string are false.
\<close>

record ViewerState =
  arabicDoc :: "StructuredDocument option"
  englishDoc :: "StructuredDocument option"
  loading :: bool
  viewerError :: "string option"
  searchQuery :: string
  filterType :: string
  highlightedBlockId :: "string option"

definition initialViewerState :: ViewerState where
  "initialViewerState =
     \<lparr> arabicDoc = None, englishDoc = None, loading = True, viewerError = None,
       searchQuery = [], filterType = ''all'', highlightedBlockId = None \<rparr>"

definition truthy :: "string option \<Rightarrow> bool" where
  "truthy s = (case s of None \<Rightarrow> False | Some m \<Rightarrow> m \<noteq> [])"

text \<open>The two continuations of \<open>getJobResult(jobId)\<close> in the mount effect.\<close>

definition resultLoaded :: "JobResult \<Rightarrow> ViewerState \<Rightarrow> ViewerState" where
  "resultLoaded result st =
     st\<lparr> arabicDoc := arabic result, englishDoc := english result, loading := False \<rparr>"

definition resultFailed :: "string \<Rightarrow> ViewerState \<Rightarrow> ViewerState" where
  "resultFailed message st = st\<lparr> viewerError := Some message, loading := False \<rparr>"

definition filterBlocks :: "ViewerState \<Rightarrow> Block list \<Rightarrow> Block list" where
  "filterBlocks st bs =
     (let filtered = bs;
          filtered = (if filterType st \<noteq> ''all''
                      then filter (\<lambda>block. block_type block = filterType st) filtered
                      else filtered);
          filtered = (if searchQuery st \<noteq> []
                      then (let query = toLowerCase (searchQuery st)
                            in filter (\<lambda>block. includesStr (toLowerCase (block_text block)) query)
                                 filtered)
                      else filtered)
      in filtered)"

record PageView =
  page_number :: int
  page_elements :: "BlockElement list"

text \<open>
  A list of children renders when each child does (\<open>those\<close>); a child that throws takes
  the whole render with it.
\<close>

definition renderPage :: "ViewerState \<Rightarrow> Language \<Rightarrow> Page \<Rightarrow> PageView option" where
  "renderPage st l page =
     (case those (map (\<lambda>block. BlockHighlighter block l
                                  (highlightedBlockId st = Some (block_id block))
                                  (searchQuery st))
                      (filterBlocks st (blocks page))) of
        None \<Rightarrow> None
      | Some elements \<Rightarrow>
          Some \<lparr> page_number = page_index page + 1, page_elements = elements \<rparr>)"

definition renderBlocks ::
  "ViewerState \<Rightarrow> StructuredDocument \<Rightarrow> Language \<Rightarrow> PageView list option" where
  "renderBlocks st doc l = those (map (renderPage st l) (pages doc))"

datatype Panel = Rendered "PageView list" | NotAvailable string

datatype View = Spinner | ErrorAlert string | NoResults string | Viewer Panel Panel

text \<open>
  The rendered component, or \<open>None\<close> when one of its blocks has no element: an
  exception thrown while rendering a block leaves nothing of the viewer on the page.
\<close>

definition ResultViewer :: "ViewerState \<Rightarrow> View option" where
  "ResultViewer st =
     (if loading st then Some Spinner
      else if truthy (viewerError st) then Some (ErrorAlert (the (viewerError st)))
      else if arabicDoc st = None \<and> englishDoc st = None
        then Some (NoResults ''No results available for this job.'')
      else
        case (case arabicDoc st of
                Some doc \<Rightarrow> map_option Rendered (renderBlocks st doc ar)
              | None \<Rightarrow> Some (NotAvailable ''Arabic document not available'')) of
          None \<Rightarrow> None
        | Some arabicPanel \<Rightarrow>
            (case (case englishDoc st of
                     Some doc \<Rightarrow> map_option Rendered (renderBlocks st doc en)
                   | None \<Rightarrow> Some (NotAvailable ''English document not available'')) of
               None \<Rightarrow> None
             | Some englishPanel \<Rightarrow> Some (Viewer arabicPanel englishPanel)))"







text \<open>
  A document shown in full: every page with every block, in order, none highlighted and
  the text untouched.
\<close>

definition allBlocks :: "StructuredDocument \<Rightarrow> Language \<Rightarrow> PageView list" where
  "allBlocks doc l =
     map (\<lambda>page.
            \<lparr> page_number = page_index page + 1,
              page_elements =
                map (\<lambda>block. \<lparr> element_id = blockElementId l (block_id block),
                                element_highlighted = False,
                                element_onClick = block_id block,
                                element_text = Unchanged (block_text block) \<rparr>)
                    (blocks page) \<rparr>)
         (pages doc)"



section \<open>useJobPolling\<close>

text \<open>
  The hook's options record says which of the optional callbacks the caller supplied;
  a callback invocation is an entry of the log \<open>poll\<close> returns (callbacks are taken to
  return normally and to leave the hook's state alone while \<open>poll\<close> runs). The hook's state is the \<open>intervalRef\<close> cell together with the
  interval timers currently running; a timer handle is never falsy.
  \<open>await getJob(jobId)\<close> either resolves with a job
  or rejects with an error, of which the message is kept.
\<close>

record PollingOptions =
  jobId :: string
  enabled :: bool
  interval :: nat
  onUpdate :: bool
  onComplete :: bool
  onError :: bool

datatype Call = OnUpdate Job | OnComplete Job | OnError string

datatype Response = Resolved Job | Rejected string

record PollingState =
  intervalRef :: "nat option"
  timers :: "nat list"

text \<open>\<open>if (intervalRef.current) { clearInterval(intervalRef.current); intervalRef.current = null }\<close>\<close>

definition clearIntervalRef :: "PollingState \<Rightarrow> PollingState" where
  "clearIntervalRef st =
     (case intervalRef st of
        None \<Rightarrow> st
      | Some h \<Rightarrow> st\<lparr> timers := removeAll h (timers st), intervalRef := None \<rparr>)"

text \<open>\<open>a || b\<close> on a possibly-missing string: \<open>b\<close> when \<open>a\<close> is missing or empty.\<close>

definition orElse :: "string option \<Rightarrow> string \<Rightarrow> string" where
  "orElse a b = (case a of None \<Rightarrow> b | Some m \<Rightarrow> if m = [] then b else m)"

definition poll :: "PollingOptions \<Rightarrow> Response \<Rightarrow> PollingState \<Rightarrow> PollingState \<times> Call list" where
  "poll opts response st =
     (case response of
        Resolved job \<Rightarrow>
          (let updates = (if onUpdate opts then [OnUpdate job] else [])
           in if status job = ''completed'' \<or> status job = ''failed''
              then (clearIntervalRef st,
                    updates @
                    (if status job = ''completed'' \<and> onComplete opts then [OnComplete job]
                     else if status job = ''failed'' \<and> onError opts
                       then [OnError (orElse (error_message job) ''Job failed'')]
                     else []))
              else (st, updates))
      | Rejected message \<Rightarrow>
          (clearIntervalRef st, if onError opts then [OnError message] else []))"

text \<open>
  The effect body: nothing when disabled or without a job id; otherwise the first
  \<open>poll()\<close> is started and \<open>setInterval\<close> registers the timer \<open>h\<close> before that poll's
  response can arrive.
\<close>

definition startPolling :: "PollingOptions \<Rightarrow> nat \<Rightarrow> PollingState \<Rightarrow> PollingState" where
  "startPolling opts h st =
     (if \<not> enabled opts \<or> jobId opts = [] then st
      else st\<lparr> intervalRef := Some h, timers := h # timers st \<rparr>)"

text \<open>
  The effect's cleanup, run before the effect runs again and on unmount:
  \<open>if (intervalRef.current) { clearInterval(intervalRef.current) }\<close>, the reference
  staying as it is. The effect runs again whenever one of its dependencies changes,
  the three callbacks among them.
\<close>

definition effectCleanup :: "PollingState \<Rightarrow> PollingState" where
  "effectCleanup st =
     (case intervalRef st of
        None \<Rightarrow> st
      | Some h \<Rightarrow> st\<lparr> timers := removeAll h (timers st) \<rparr>)"

definition rerunEffect :: "PollingOptions \<Rightarrow> nat \<Rightarrow> PollingState \<Rightarrow> PollingState" where
  "rerunEffect opts h st = startPolling opts h (effectCleanup st)"

definition polling :: "PollingState \<Rightarrow> bool" where
  "polling st \<longleftrightarrow> (case intervalRef st of None \<Rightarrow> False | Some h \<Rightarrow> h \<in> set (timers st))"

text \<open>Whether the caller supplied the callback an invocation goes to.\<close>

definition supplied :: "PollingOptions \<Rightarrow> Call \<Rightarrow> bool" where
  "supplied opts c = (case c of OnUpdate j \<Rightarrow> onUpdate opts | OnComplete j \<Rightarrow> onComplete opts
                       | OnError m \<Rightarrow> onError opts)"

section \<open>UploadPage\<close>

record File =
  file_name :: string
  file_size :: nat

text \<open>The state cell \<open>file\<close> is the field \<open>selected\<close>.\<close>

record UploadState =
  selected :: "File option"
  uploading :: bool
  uploadError :: "string option"
  ocrEngine :: string

definition initialUploadState :: UploadState where
  "initialUploadState =
     \<lparr> selected = None, uploading = False, uploadError = None, ocrEngine = ''paddleocr'' \<rparr>"

definition allowedTypes :: "string list" where
  "allowedTypes = [''.pdf'', ''.docx'', ''.jpg'', ''.jpeg'', ''.png'', ''.tiff'', ''.tif'']"

text \<open>\<open>'.' + selectedFile.name.split('.').pop()?.toLowerCase()\<close>\<close>

definition fileExt :: "string \<Rightarrow> string" where
  "fileExt name =
     ''.'' @ (case pop (split name (CHR ''.'')) of
                None \<Rightarrow> ''undefined''
              | Some s \<Rightarrow> toLowerCase s)"

text \<open>
  The argument is \<open>event.target.files\<close>, which may be \<open>null\<close>; \<open>files?.[0]\<close> is the first
  file if there is one.
\<close>

definition handleFileSelect :: "File list option \<Rightarrow> UploadState \<Rightarrow> UploadState" where
  "handleFileSelect files st =
     (case (case files of None \<Rightarrow> None | Some [] \<Rightarrow> None | Some (f # fs) \<Rightarrow> Some f) of
        None \<Rightarrow> st
      | Some selectedFile \<Rightarrow>
          if fileExt (file_name selectedFile) \<notin> set allowedTypes
            then st\<lparr> uploadError :=
                      Some (''File type not allowed. Allowed types: '' @ join allowedTypes '', '') \<rparr>
          else if file_size selectedFile > 50 * 1024 * 1024
            then st\<lparr> uploadError := Some ''File size exceeds 50MB limit'' \<rparr>
          else st\<lparr> selected := Some selectedFile, uploadError := None \<rparr>)"

text \<open>
  The extension of a file name in the usual sense, for comparison with \<open>fileExt\<close>: the
  part from the last dot on, and none for a name without a dot.
\<close>

definition extension :: "string \<Rightarrow> string option" where
  "extension name =
     (if CHR ''.'' \<in> set name
      then Some (CHR ''.'' # rev (takeWhile (\<lambda>c. c \<noteq> CHR ''.'') (rev name)))
      else None)"

definition acceptable :: "File \<Rightarrow> bool" where
  "acceptable f \<longleftrightarrow>
     (case extension (file_name f) of
        None \<Rightarrow> False
      | Some e \<Rightarrow> toLowerCase e \<in> set allowedTypes)
     \<and> file_size f \<le> 50 * 1024 * 1024"

section \<open>Sample values\<close>

text \<open>Concrete jobs, blocks and documents at which the results below are instantiated.\<close>

definition sampleJob :: "string \<Rightarrow> string \<Rightarrow> string \<Rightarrow> string \<Rightarrow> string option \<Rightarrow> Job" where
  "sampleJob s e oc t m =
     \<lparr> job_id = ''job-1'', status = s, original_filename = ''scan.pdf'',
       created_at = ''2024-01-01T00:00:00Z'', updated_at = ''2024-01-01T00:00:05Z'',
       stats = None, error_message = m,
       processing_stages = \<lparr> extraction = e, ocr = oc, translation = t \<rparr> \<rparr>"

definition sampleBlock :: "string \<Rightarrow> string \<Rightarrow> string \<Rightarrow> Block" where
  "sampleBlock i t x =
     \<lparr> block_id = i, block_type = t,
       block_metadata = \<lparr> bbox = None, is_heading = None, heading_level = None,
                          list_level = None, table = None, confidence = None \<rparr>,
       block_text = x \<rparr>"

definition sampleViewer :: "string \<Rightarrow> string \<Rightarrow> ViewerState" where
  "sampleViewer q t = initialViewerState \<lparr> loading := False, searchQuery := q, filterType := t \<rparr>"

definition sampleOptions :: PollingOptions where
  "sampleOptions = \<lparr> jobId = ''job-1'', enabled = True, interval = 2000,
                     onUpdate = True, onComplete = True, onError = True \<rparr>"

definition samplePolling :: PollingState where
  "samplePolling = startPolling sampleOptions 7 \<lparr> intervalRef = None, timers = [] \<rparr>"

definition sampleDocument :: "string \<Rightarrow> Block list \<Rightarrow> StructuredDocument" where
  "sampleDocument l bs =
     \<lparr> document_id = ''doc-1'', language = l,
       pages = [\<lparr> page_index = 0, blocks = bs \<rparr>],
       doc_metadata = \<lparr> source_filename = ''scan.pdf'', doc_total_pages = 1,
                        extraction_timestamp = ''2024-01-01T00:00:00Z'',
                        ocr_engine = None, processing_time_seconds = None \<rparr> \<rparr>"

definition sampleResult :: "StructuredDocument option \<Rightarrow> StructuredDocument option \<Rightarrow> JobResult" where
  "sampleResult a e = \<lparr> result_job_id = ''job-1'', arabic = a, english = e \<rparr>"


section \<open>Progress: results\<close>

lemma foldl_stageStep:
  "foldl stageStep a xs =
     a + 33.33 * real (length (filter (\<lambda>x. x = ''completed'') xs))
       + 11.11 * real (length (filter (\<lambda>x. x = ''in_progress'') xs))"
  by (induction xs arbitrary: a) (simp_all add: stageStep_def algebra_simps)

lemma getProgress_le_99:
  "status job \<noteq> ''completed'' \<Longrightarrow> getProgress (Some job) \<le> 99"
  by (simp add: getProgress_def Let_def)

text \<open>
  Claim C1. A job that is not \<open>completed\<close> reports less than 100: a \<open>failed\<close> job
  reports 0 and every other one at most 99; and 100 is reported exactly for the status
  \<open>completed\<close>.
\<close>

theorem getProgress_below_100:
  "(status job \<noteq> ''completed'' \<longrightarrow> getProgress (Some job) < 100)
   \<and> (status job = ''failed'' \<longrightarrow> getProgress (Some job) = 0)
   \<and> (status job \<noteq> ''completed'' \<longrightarrow> getProgress (Some job) \<le> 99)
   \<and> (getProgress (Some job) = 100 \<longleftrightarrow> status job = ''completed'')"
proof -
  have le: "getProgress (Some job) \<le> 99" if "status job \<noteq> ''completed''"
    using that by (rule getProgress_le_99)
  have fin: "getProgress (Some job) = 100" if "status job = ''completed''"
    using that by (simp add: getProgress_def)
  have failed: "getProgress (Some job) = 0" if "status job = ''failed''"
    using that by (simp add: getProgress_def)
  from le fin failed show ?thesis by fastforce
qed

theorem getProgress_below_100_witness:
  "status (sampleJob ''failed'' ''completed'' ''in_progress'' ''pending'' (Some ''boom'')) \<noteq> ''completed''
   \<and> status (sampleJob ''failed'' ''completed'' ''in_progress'' ''pending'' (Some ''boom'')) = ''failed''
   \<and> getProgress (Some (sampleJob ''failed'' ''completed'' ''in_progress'' ''pending'' (Some ''boom''))) = 0
   \<and> getProgress (Some (sampleJob ''translating'' ''completed'' ''completed'' ''in_progress'' None)) \<le> 99
   \<and> getProgress (Some (sampleJob ''translating'' ''completed'' ''completed'' ''in_progress'' None)) < 100
   \<and> getProgress (Some (sampleJob ''completed'' ''completed'' ''completed'' ''completed'' None)) = 100"
  using getProgress_below_100 [of "sampleJob ''failed'' ''completed'' ''in_progress'' ''pending'' (Some ''boom'')"]
        getProgress_below_100 [of "sampleJob ''translating'' ''completed'' ''completed'' ''in_progress'' None"]
        getProgress_below_100 [of "sampleJob ''completed'' ''completed'' ''completed'' ''completed'' None"]
  by (simp add: sampleJob_def)

text \<open>
  Claim C3. For a job that is neither \<open>completed\<close> nor \<open>failed\<close> the progress is
  \<open>min (33.33 * c + 11.11 * p) 99\<close>, with \<open>c\<close> the number of the three stages that are
  \<open>completed\<close> and \<open>p\<close> the number that are \<open>in_progress\<close>. Every stage adds the same
  amounts, whichever stage it is, and \<open>in_progress\<close> adds strictly less than
  \<open>completed\<close>.
\<close>

theorem getProgress_formula:
  assumes "status job \<noteq> ''completed''" and "status job \<noteq> ''failed''"
  shows "getProgress (Some job) =
           min (33.33 * real (count_stages ''completed'' job)
                + 11.11 * real (count_stages ''in_progress'' job)) 99
         \<and> stageStep a ''completed'' - a = 33.33
         \<and> stageStep a ''in_progress'' - a = 11.11
         \<and> stageStep a ''in_progress'' - a < stageStep a ''completed'' - a"
  using assms
  by (simp add: getProgress_def Let_def foldl_stageStep count_stages_def stages_of_def stageStep_def)

theorem getProgress_formula_witness:
  "status (sampleJob ''translating'' ''completed'' ''completed'' ''in_progress'' None) \<noteq> ''completed''
   \<and> status (sampleJob ''translating'' ''completed'' ''completed'' ''in_progress'' None) \<noteq> ''failed''
   \<and> count_stages ''completed'' (sampleJob ''translating'' ''completed'' ''completed'' ''in_progress'' None) = 2
   \<and> count_stages ''in_progress'' (sampleJob ''translating'' ''completed'' ''completed'' ''in_progress'' None) = 1
   \<and> getProgress (Some (sampleJob ''translating'' ''completed'' ''completed'' ''in_progress'' None)) = 77.77"
  using getProgress_formula [of "sampleJob ''translating'' ''completed'' ''completed'' ''in_progress'' None" 0]
  by (simp add: sampleJob_def count_stages_def stages_of_def)

lemma stageStep_mono:
  assumes "stage_step s' k a b" and "s' \<noteq> ''failed''" and "x \<le> y"
  shows "stageStep x a \<le> stageStep y b"
  using assms by (auto simp: stage_step_def stage_advance_def stageStep_def)

lemma stageStep_nonneg: "0 \<le> x \<Longrightarrow> 0 \<le> stageStep x a"
  by (simp add: stageStep_def)

lemma getProgress_nonneg: "0 \<le> getProgress j"
  by (cases j) (simp_all add: getProgress_def Let_def stageStep_nonneg)

lemma status_advance_completed:
  "status_advance ''completed'' b \<Longrightarrow> b = ''completed''"
  by (auto simp: status_advance_def status_terminal_def)

text \<open>
  Claim C2, as stated: progress never decreases from one snapshot of a job to the next,
  the transition to \<open>failed\<close> included. It does decrease there: a job that fails during
  extraction goes from 11.11 to 0.
\<close>

theorem getProgress_step_counterexample:
  "job_step (sampleJob ''extracting'' ''in_progress'' ''pending'' ''pending'' None)
            (sampleJob ''failed'' ''failed'' ''pending'' ''pending'' (Some ''Corrupt document''))
   \<and> getProgress (Some (sampleJob ''failed'' ''failed'' ''pending'' ''pending'' (Some ''Corrupt document'')))
       < getProgress (Some (sampleJob ''extracting'' ''in_progress'' ''pending'' ''pending'' None))"
  by (simp add: job_step_def sampleJob_def status_advance_def status_terminal_def stage_step_def
        stage_advance_def stage_fails_def getProgress_def stageStep_def)

text \<open>
  Claim C2, amended: progress does not decrease from one snapshot of a job to the next
  whenever the later snapshot is not \<open>failed\<close>.
\<close>

theorem getProgress_monotone:
  assumes step: "job_step j j'" and alive: "status j' \<noteq> ''failed''"
  shows "getProgress (Some j) \<le> getProgress (Some j')"
proof -
  from step have adv: "status_advance (status j) (status j')"
    and e: "stage_step (status j') False
              (extraction (processing_stages j)) (extraction (processing_stages j'))"
    and oc: "stage_step (status j') True (ocr (processing_stages j)) (ocr (processing_stages j'))"
    and t: "stage_step (status j') False
              (translation (processing_stages j)) (translation (processing_stages j'))"
    by (simp_all add: job_step_def)
  show ?thesis
  proof (cases "status j = ''completed''")
    case True
    with adv have "status j' = ''completed''" by (simp add: status_advance_completed)
    with True show ?thesis by (simp add: getProgress_def)
  next
    case running: False
    show ?thesis
    proof (cases "status j' = ''completed''")
      case True
      then have "getProgress (Some j') = 100" by (simp add: getProgress_def)
      moreover from running have "getProgress (Some j) \<le> 99" by (rule getProgress_le_99)
      ultimately show ?thesis by simp
    next
      case False
      show ?thesis
      proof (cases "status j = ''failed''")
        case True
        then have "getProgress (Some j) = 0" by (simp add: getProgress_def)
        then show ?thesis by (simp add: getProgress_nonneg)
      next
        case nf: False
        have "stageStep 0 (extraction (processing_stages j))
                \<le> stageStep 0 (extraction (processing_stages j'))"
          using e alive by (rule stageStep_mono) simp
        then have "stageStep (stageStep 0 (extraction (processing_stages j))) (ocr (processing_stages j))
                \<le> stageStep (stageStep 0 (extraction (processing_stages j'))) (ocr (processing_stages j'))"
          using oc alive stageStep_mono by blast
        then have "stageStep (stageStep (stageStep 0 (extraction (processing_stages j)))
                     (ocr (processing_stages j))) (translation (processing_stages j))
                \<le> stageStep (stageStep (stageStep 0 (extraction (processing_stages j')))
                     (ocr (processing_stages j'))) (translation (processing_stages j'))"
          using t alive stageStep_mono by blast
        with running nf False alive show ?thesis
          by (simp add: getProgress_def Let_def min_le_iff_disj)
      qed
    qed
  qed
qed

theorem getProgress_monotone_witness:
  "job_step (sampleJob ''extracting'' ''in_progress'' ''pending'' ''pending'' None)
            (sampleJob ''ocr'' ''completed'' ''in_progress'' ''pending'' None)
   \<and> status (sampleJob ''ocr'' ''completed'' ''in_progress'' ''pending'' None) \<noteq> ''failed''
   \<and> getProgress (Some (sampleJob ''extracting'' ''in_progress'' ''pending'' ''pending'' None))
       \<le> getProgress (Some (sampleJob ''ocr'' ''completed'' ''in_progress'' ''pending'' None))"
proof -
  have s: "job_step (sampleJob ''extracting'' ''in_progress'' ''pending'' ''pending'' None)
            (sampleJob ''ocr'' ''completed'' ''in_progress'' ''pending'' None)"
    by (simp add: job_step_def sampleJob_def status_advance_def stage_step_def stage_advance_def)
  have a: "status (sampleJob ''ocr'' ''completed'' ''in_progress'' ''pending'' None) \<noteq> ''failed''"
    by (simp add: sampleJob_def)
  from s a getProgress_monotone [OF s a] show ?thesis by simp
qed

section \<open>Status values: results\<close>

text \<open>
  Claim C7, as stated: the status of every job is one of the six values of the
  enumeration. The \<open>Job\<close> interface carries any string, and \<open>getStatusColor\<close> has a case
  for \<open>processing\<close>, which is none of the six.
\<close>

theorem status_enumeration_counterexample:
  "status (sampleJob ''processing'' ''in_progress'' ''pending'' ''pending'' None)
     \<notin> set status_enumeration
   \<and> getStatusColor (status (sampleJob ''processing'' ''in_progress'' ''pending'' ''pending'' None))
       = ''info''"
  by (simp add: sampleJob_def status_enumeration_def getStatusColor_def)

text \<open>
  Claim C7, amended: each of the six values is handled (\<open>completed\<close> is coloured
  \<open>success\<close>, \<open>failed\<close> \<open>error\<close>, \<open>queued\<close> \<open>default\<close> and the three stage names \<open>info\<close>),
  and a status outside the enumeration is accepted as well: \<open>processing\<close> is coloured
  \<open>info\<close> and every other string \<open>default\<close>.
\<close>

theorem getStatusColor_cases:
  "(s \<in> set status_enumeration \<longrightarrow>
      getStatusColor s =
        (if s = ''completed'' then ''success'' else if s = ''failed'' then ''error''
         else if s = ''queued'' then ''default'' else ''info''))
   \<and> (s \<notin> set status_enumeration \<longrightarrow>
      getStatusColor s = (if s = ''processing'' then ''info'' else ''default''))"
  by (auto simp add: status_enumeration_def getStatusColor_def)

theorem getStatusColor_cases_witness:
  "''ocr'' \<in> set status_enumeration \<and> getStatusColor ''ocr'' = ''info''
   \<and> ''queued'' \<in> set status_enumeration \<and> getStatusColor ''queued'' = ''default''
   \<and> ''processing'' \<notin> set status_enumeration \<and> getStatusColor ''processing'' = ''info''
   \<and> ''paused'' \<notin> set status_enumeration \<and> getStatusColor ''paused'' = ''default''"
  using getStatusColor_cases [of "''ocr''"] getStatusColor_cases [of "''queued''"]
        getStatusColor_cases [of "''processing''"] getStatusColor_cases [of "''paused''"]
  by (simp add: status_enumeration_def)

section \<open>Block filtering: results\<close>

text \<open>
  Claim C9. \<open>filterBlocks\<close> returns a subsequence of its input (the blocks it keeps are
  the input's own, in the input's order, none twice); with the type filter \<open>all\<close> and an
  empty query it returns the input itself; and every block it returns has the selected
  type, when one is selected, and contains the query, ignoring case, when one is set.
\<close>

theorem filterBlocks_subseq:
  "subseq (filterBlocks st bs) bs
   \<and> (filterType st = ''all'' \<and> searchQuery st = [] \<longrightarrow> filterBlocks st bs = bs)
   \<and> (\<forall>block \<in> set (filterBlocks st bs).
         (filterType st \<noteq> ''all'' \<longrightarrow> block_type block = filterType st)
         \<and> (searchQuery st \<noteq> [] \<longrightarrow>
              includesStr (toLowerCase (block_text block)) (toLowerCase (searchQuery st))))"
proof -
  have "subseq (filterBlocks st bs) bs"
  proof -
    have "subseq (filter P (filter Q bs)) bs" for P Q :: "Block \<Rightarrow> bool"
      using subseq_filter_left [of P "filter Q bs"] subseq_filter_left [of Q bs]
      by (rule subseq_order.trans)
    then show ?thesis by (simp add: filterBlocks_def Let_def)
  qed
  moreover have "filterType st = ''all'' \<and> searchQuery st = [] \<longrightarrow> filterBlocks st bs = bs"
    by (simp add: filterBlocks_def)
  moreover have "\<forall>block \<in> set (filterBlocks st bs).
         (filterType st \<noteq> ''all'' \<longrightarrow> block_type block = filterType st)
         \<and> (searchQuery st \<noteq> [] \<longrightarrow>
              includesStr (toLowerCase (block_text block)) (toLowerCase (searchQuery st)))"
    by (simp add: filterBlocks_def Let_def)
  ultimately show ?thesis by blast
qed

theorem filterBlocks_subseq_witness:
  "filterBlocks (sampleViewer ''Hello'' ''paragraph'')
          [sampleBlock ''b1'' ''heading'' ''Hello'', sampleBlock ''b2'' ''paragraph'' ''say hELLo!'',
           sampleBlock ''b3'' ''paragraph'' ''bye'']
     = [sampleBlock ''b2'' ''paragraph'' ''say hELLo!'']
   \<and> sampleBlock ''b2'' ''paragraph'' ''say hELLo!''
       \<in> set (filterBlocks (sampleViewer ''Hello'' ''paragraph'')
          [sampleBlock ''b1'' ''heading'' ''Hello'', sampleBlock ''b2'' ''paragraph'' ''say hELLo!'',
           sampleBlock ''b3'' ''paragraph'' ''bye''])
   \<and> filterType (sampleViewer ''Hello'' ''paragraph'') \<noteq> ''all''
   \<and> searchQuery (sampleViewer ''Hello'' ''paragraph'') \<noteq> []
   \<and> block_type (sampleBlock ''b2'' ''paragraph'' ''say hELLo!'') = ''paragraph''
   \<and> includesStr (toLowerCase (block_text (sampleBlock ''b2'' ''paragraph'' ''say hELLo!'')))
        (toLowerCase (searchQuery (sampleViewer ''Hello'' ''paragraph'')))
   \<and> subseq (filterBlocks (sampleViewer ''Hello'' ''paragraph'')
          [sampleBlock ''b1'' ''heading'' ''Hello'', sampleBlock ''b2'' ''paragraph'' ''say hELLo!'',
           sampleBlock ''b3'' ''paragraph'' ''bye''])
        [sampleBlock ''b1'' ''heading'' ''Hello'', sampleBlock ''b2'' ''paragraph'' ''say hELLo!'',
           sampleBlock ''b3'' ''paragraph'' ''bye'']
   \<and> filterType (sampleViewer [] ''all'') = ''all'' \<and> searchQuery (sampleViewer [] ''all'') = []
   \<and> filterBlocks (sampleViewer [] ''all'') [sampleBlock ''b1'' ''heading'' ''Hello'']
        = [sampleBlock ''b1'' ''heading'' ''Hello'']"
proof -
  have ev: "filterBlocks (sampleViewer ''Hello'' ''paragraph'')
          [sampleBlock ''b1'' ''heading'' ''Hello'', sampleBlock ''b2'' ''paragraph'' ''say hELLo!'',
           sampleBlock ''b3'' ''paragraph'' ''bye'']
     = [sampleBlock ''b2'' ''paragraph'' ''say hELLo!'']"
    by code_simp
  have st: "filterType (sampleViewer ''Hello'' ''paragraph'') \<noteq> ''all''"
     "searchQuery (sampleViewer ''Hello'' ''paragraph'') \<noteq> []"
     "filterType (sampleViewer [] ''all'') = ''all''" "searchQuery (sampleViewer [] ''all'') = []"
    by (simp_all add: sampleViewer_def initialViewerState_def)
  have ty: "block_type (sampleBlock ''b2'' ''paragraph'' ''say hELLo!'') = ''paragraph''"
    by (simp add: sampleBlock_def)
  from ev st ty
    filterBlocks_subseq [of "sampleViewer ''Hello'' ''paragraph''"
      "[sampleBlock ''b1'' ''heading'' ''Hello'', sampleBlock ''b2'' ''paragraph'' ''say hELLo!'',
           sampleBlock ''b3'' ''paragraph'' ''bye'']"]
    filterBlocks_subseq [of "sampleViewer [] ''all''" "[sampleBlock ''b1'' ''heading'' ''Hello'']"]
  show ?thesis by simp
qed


section \<open>File selection: results\<close>

text \<open>
  For a name with a dot, \<open>fileExt\<close> is the lower-cased extension, and
  \<open>handleFileSelect\<close> stores the file exactly when it is acceptable; otherwise it sets an
  error and keeps the file selected before.
\<close>

lemma splitChar_nonempty: "splitChar c seg s \<noteq> []"
  by (induction s arbitrary: seg) simp_all

lemma last_splitChar:
  "last (splitChar c seg s) =
     (if c \<in> set s then rev (takeWhile (\<lambda>x. x \<noteq> c) (rev s)) else seg @ s)"
proof (induction s arbitrary: seg)
  case Nil
  then show ?case by simp
next
  case (Cons x xs)
  show ?case
  proof (cases "x = c")
    case True
    then show ?thesis
      using Cons.IH [of "[]"] by (simp add: splitChar_nonempty takeWhile_append)
  next
    case False
    then show ?thesis
      using Cons.IH [of "seg @ [x]"] by (auto simp: takeWhile_append)
  qed
qed

lemma toLowerCase_dot: "toLowerCase (CHR ''.'' # e) = CHR ''.'' # toLowerCase e"
  by (simp add: toLowerCase_def toLowerChar_def)

lemma fileExt_extension:
  "fileExt name =
     (case extension name of Some e \<Rightarrow> toLowerCase e | None \<Rightarrow> CHR ''.'' # toLowerCase name)"
  by (simp add: fileExt_def extension_def pop_def split_def splitChar_nonempty last_splitChar
        toLowerCase_dot)

lemma handleFileSelect_dotted:
  assumes "CHR ''.'' \<in> set (file_name f)"
  shows "handleFileSelect (Some (f # fs)) st =
           (if acceptable f then st\<lparr> selected := Some f, uploadError := None \<rparr>
            else st\<lparr> uploadError := uploadError (handleFileSelect (Some (f # fs)) st) \<rparr>)
         \<and> (\<not> acceptable f \<longrightarrow> uploadError (handleFileSelect (Some (f # fs)) st) \<noteq> None)"
  using assms
  by (auto simp add: handleFileSelect_def acceptable_def fileExt_extension extension_def)

text \<open>
  Claim C10 at a name without a dot: the file named \<open>pdf\<close> has no extension and is not
  acceptable, yet \<open>handleFileSelect\<close> stores it and clears the error, because
  \<open>split('.').pop()\<close> returns the whole name there.
\<close>

theorem handleFileSelect_accepts_undotted:
  "extension (file_name \<lparr> file_name = ''pdf'', file_size = 1 \<rparr>) = None
   \<and> \<not> acceptable \<lparr> file_name = ''pdf'', file_size = 1 \<rparr>
   \<and> handleFileSelect (Some [\<lparr> file_name = ''pdf'', file_size = 1 \<rparr>]) initialUploadState
       = initialUploadState \<lparr> selected := Some \<lparr> file_name = ''pdf'', file_size = 1 \<rparr>,
                               uploadError := None \<rparr>"
  by (simp add: extension_def acceptable_def handleFileSelect_def fileExt_def pop_def split_def
        toLowerCase_def toLowerChar_def allowedTypes_def initialUploadState_def)

section \<open>Polling: results\<close>

lemma not_polling_clearIntervalRef: "\<not> polling (clearIntervalRef st)"
  by (simp add: polling_def clearIntervalRef_def split: option.splits)

lemma clearIntervalRef_timers:
  "intervalRef st = Some h \<Longrightarrow> h \<notin> set (timers (clearIntervalRef st))"
  by (simp add: clearIntervalRef_def)

text \<open>
  Claim C5, as stated: for a \<open>failed\<close> job \<open>onError\<close> receives the job's
  \<open>error_message\<close> whenever one is present. An \<open>error_message\<close> that is present and
  empty is replaced by the fallback, \<open>||\<close> treating the empty string as missing.
\<close>

theorem poll_empty_message_counterexample:
  "status (sampleJob ''failed'' ''failed'' ''pending'' ''pending'' (Some '''')) = ''failed''
   \<and> error_message (sampleJob ''failed'' ''failed'' ''pending'' ''pending'' (Some '''')) = Some ''''
   \<and> snd (poll sampleOptions
            (Resolved (sampleJob ''failed'' ''failed'' ''pending'' ''pending'' (Some ''''))) samplePolling)
       = [OnUpdate (sampleJob ''failed'' ''failed'' ''pending'' ''pending'' (Some '''')),
          OnError ''Job failed'']
   \<and> OnError '''' \<notin> set (snd (poll sampleOptions
            (Resolved (sampleJob ''failed'' ''failed'' ''pending'' ''pending'' (Some ''''))) samplePolling))"
  by (simp add: poll_def sampleJob_def sampleOptions_def orElse_def)

text \<open>
  What the callbacks do is the caller's business. \<open>JobStatusPage\<close> passes closures made
  anew at every render, and its \<open>onUpdate\<close> sets state; each response therefore changes
  the effect's dependencies, and when the effect runs again polling is on again,
  whatever the poll before it did.
\<close>

lemma rerunEffect_polling:
  "enabled opts \<Longrightarrow> jobId opts \<noteq> [] \<Longrightarrow> polling (rerunEffect opts h st)"
  by (simp add: rerunEffect_def startPolling_def polling_def)

text \<open>
  Claim C5, amended: a poll that returns a \<open>failed\<close> job clears the hook's interval
  (the timer held in \<open>intervalRef\<close> is cancelled and the reference reset) and invokes
  \<open>onError\<close> with the job's \<open>error_message\<close> when that is present and not empty, and
  with \<open>Job failed\<close> otherwise; one that returns a \<open>completed\<close> job clears the interval
  and invokes \<open>onComplete\<close> with the job; for every other status the interval is left as
  it is. \<open>onUpdate\<close> is invoked first in all three cases, and no other callback in the
  third; each callback is invoked only if the caller supplied it. Whether a later run of
  the hook's effect starts polling again is no part of the statement.
\<close>

theorem poll_outcomes:
  "(status job = ''failed'' \<longrightarrow>
      \<not> polling (fst (poll opts (Resolved job) st))
      \<and> intervalRef (fst (poll opts (Resolved job) st)) = None
      \<and> (\<forall>h. intervalRef st = Some h \<longrightarrow> h \<notin> set (timers (fst (poll opts (Resolved job) st))))
      \<and> snd (poll opts (Resolved job) st) =
          filter (supplied opts)
            [OnUpdate job,
             OnError (case error_message job of
                        Some m \<Rightarrow> if m \<noteq> [] then m else ''Job failed''
                      | None \<Rightarrow> ''Job failed'')])
   \<and> (status job = ''completed'' \<longrightarrow>
      \<not> polling (fst (poll opts (Resolved job) st))
      \<and> intervalRef (fst (poll opts (Resolved job) st)) = None
      \<and> (\<forall>h. intervalRef st = Some h \<longrightarrow> h \<notin> set (timers (fst (poll opts (Resolved job) st))))
      \<and> snd (poll opts (Resolved job) st) = filter (supplied opts) [OnUpdate job, OnComplete job])
   \<and> (status job \<noteq> ''failed'' \<and> status job \<noteq> ''completed'' \<longrightarrow>
      fst (poll opts (Resolved job) st) = st
      \<and> snd (poll opts (Resolved job) st) = filter (supplied opts) [OnUpdate job])"
proof -
  have f: "fst (poll opts (Resolved job) st) = clearIntervalRef st"
    if "status job = ''failed'' \<or> status job = ''completed''"
    using that by (auto simp: poll_def Let_def)
  have r: "intervalRef (clearIntervalRef st) = None"
    by (simp add: clearIntervalRef_def split: option.splits)
  have t: "\<forall>h. intervalRef st = Some h \<longrightarrow> h \<notin> set (timers (clearIntervalRef st))"
    by (simp add: clearIntervalRef_timers)
  have cf: "snd (poll opts (Resolved job) st) =
          filter (supplied opts)
            [OnUpdate job,
             OnError (case error_message job of
                        Some m \<Rightarrow> if m \<noteq> [] then m else ''Job failed''
                      | None \<Rightarrow> ''Job failed'')]"
    if "status job = ''failed''"
    using that by (simp add: poll_def Let_def supplied_def orElse_def split: option.splits)
  have cc: "snd (poll opts (Resolved job) st) = filter (supplied opts) [OnUpdate job, OnComplete job]"
    if "status job = ''completed''"
    using that by (simp add: poll_def Let_def supplied_def)
  have co: "fst (poll opts (Resolved job) st) = st
      \<and> snd (poll opts (Resolved job) st) = filter (supplied opts) [OnUpdate job]"
    if "status job \<noteq> ''failed'' \<and> status job \<noteq> ''completed''"
    using that by (simp add: poll_def Let_def supplied_def)
  from f r t cf cc co not_polling_clearIntervalRef [of st] show ?thesis by presburger
qed

theorem poll_outcomes_witness:
  "polling samplePolling \<and> intervalRef samplePolling = Some 7
   \<and> status (sampleJob ''failed'' ''failed'' ''pending'' ''pending'' (Some ''Corrupt document'')) = ''failed''
   \<and> poll sampleOptions
        (Resolved (sampleJob ''failed'' ''failed'' ''pending'' ''pending'' (Some ''Corrupt document'')))
        samplePolling
       = (\<lparr> intervalRef = None, timers = [] \<rparr>,
          [OnUpdate (sampleJob ''failed'' ''failed'' ''pending'' ''pending'' (Some ''Corrupt document'')),
           OnError ''Corrupt document''])
   \<and> status (sampleJob ''completed'' ''completed'' ''completed'' ''completed'' None) = ''completed''
   \<and> poll sampleOptions
        (Resolved (sampleJob ''completed'' ''completed'' ''completed'' ''completed'' None)) samplePolling
       = (\<lparr> intervalRef = None, timers = [] \<rparr>,
          [OnUpdate (sampleJob ''completed'' ''completed'' ''completed'' ''completed'' None),
           OnComplete (sampleJob ''completed'' ''completed'' ''completed'' ''completed'' None)])
   \<and> status (sampleJob ''ocr'' ''completed'' ''in_progress'' ''pending'' None) \<noteq> ''failed''
   \<and> status (sampleJob ''ocr'' ''completed'' ''in_progress'' ''pending'' None) \<noteq> ''completed''
   \<and> poll sampleOptions
        (Resolved (sampleJob ''ocr'' ''completed'' ''in_progress'' ''pending'' None)) samplePolling
       = (samplePolling, [OnUpdate (sampleJob ''ocr'' ''completed'' ''in_progress'' ''pending'' None)])"
proof -
  have sp: "samplePolling = \<lparr> intervalRef = Some 7, timers = [7] \<rparr>"
    by (simp add: samplePolling_def startPolling_def sampleOptions_def)
  have so: "supplied sampleOptions c" for c
    by (simp add: supplied_def sampleOptions_def split: Call.splits)
  have st: "status (sampleJob s e oc t m) = s" "error_message (sampleJob s e oc t m) = m" for s e oc t m
    by (simp_all add: sampleJob_def)
  have p: "polling samplePolling" by (simp add: sp polling_def)
  show ?thesis
    using poll_outcomes [of "sampleJob ''failed'' ''failed'' ''pending'' ''pending'' (Some ''Corrupt document'')"
            sampleOptions samplePolling]
          poll_outcomes [of "sampleJob ''completed'' ''completed'' ''completed'' ''completed'' None"
            sampleOptions samplePolling]
          poll_outcomes [of "sampleJob ''ocr'' ''completed'' ''in_progress'' ''pending'' None"
            sampleOptions samplePolling]
          p
    by (simp add: so st prod_eq_iff) (simp add: sp poll_def clearIntervalRef_def st)
qed

section \<open>Search highlighting: results\<close>

text \<open>The pieces of the split, put together again, are the text.\<close>

lemma concat_splitCapture: "concat (splitCapture q seg t) = seg @ t"
proof (induction q seg t rule: splitCapture.induct)
  case (1 q seg t)
  show ?case
  proof (cases "t = []")
    case True
    then show ?thesis by (subst splitCapture.simps) simp
  next
    case nonempty: False
    show ?thesis
    proof (cases "q \<noteq> [] \<and> matchesAt q t")
      case True
      with nonempty "1.IH"(1) show ?thesis
        by (subst splitCapture.simps) simp
    next
      case False
      with nonempty "1.IH"(2) show ?thesis
        by (subst splitCapture.simps) (cases t; auto)
    qed
  qed
qed

text \<open>
  Claim C8. With an empty query \<open>highlightText\<close> returns the text as it is. With a
  non-empty query free of pattern syntax characters it returns parts whose contents,
  concatenated, are the text, and a part is a mark exactly when it equals the query up
  to case.
\<close>

theorem highlightText_partition:
  "highlightText text [] = Some (Unchanged text)
   \<and> (query \<noteq> [] \<and> literalQuery query \<longrightarrow>
        (\<exists>ps. highlightText text query = Some (Parts ps)
              \<and> concat (map content ps) = text
              \<and> (\<forall>p \<in> set ps. isMark p \<longleftrightarrow> toLowerCase (content p) = toLowerCase query)))"
proof -
  let ?mark = "\<lambda>part. if toLowerCase part = toLowerCase query then Mark part else Plain part"
  have c: "content (?mark part) = part" for part by simp
  have m: "isMark (?mark part) \<longleftrightarrow> toLowerCase part = toLowerCase query" for part by simp
  have "concat (map content (map ?mark (splitCapture query [] text))) = text"
    unfolding map_map comp_def c by (simp add: concat_splitCapture)
  moreover have "\<forall>p \<in> set (map ?mark (splitCapture query [] text)).
                   isMark p \<longleftrightarrow> toLowerCase (content p) = toLowerCase query"
    by auto
  ultimately show ?thesis
    by (simp add: highlightText_def)
qed

theorem highlightText_partition_witness:
  "''llo'' \<noteq> [] \<and> literalQuery ''llo''
   \<and> highlightText ''Hello heLLo!'' ''llo''
       = Some (Parts [Plain ''He'', Mark ''llo'', Plain '' he'', Mark ''LLo'', Plain ''!''])
   \<and> concat (map content [Plain ''He'', Mark ''llo'', Plain '' he'', Mark ''LLo'', Plain ''!''])
       = ''Hello heLLo!''
   \<and> highlightText ''Hello heLLo!'' [] = Some (Unchanged ''Hello heLLo!'')"
proof -
  have l: "literalQuery ''llo''" by (simp add: literalQuery_def syntaxCharacters_def)
  have e: "highlightText ''Hello heLLo!'' ''llo''
       = Some (Parts [Plain ''He'', Mark ''llo'', Plain '' he'', Mark ''LLo'', Plain ''!''])"
    by code_simp
  from l e highlightText_partition [of "''Hello heLLo!''" "''llo''"] show ?thesis by simp
qed

section \<open>Result viewer: results\<close>

lemma those_map_Some: "those (map (\<lambda>x. Some (g x)) xs) = Some (map g xs)"
  by (induction xs) simp_all

lemma those_eq_Some: "those xs = Some ys \<longleftrightarrow> xs = map Some ys"
  by (induction xs arbitrary: ys) (auto split: option.splits)


lemma BlockHighlighter_unfiltered:
  "BlockHighlighter block l h [] =
     Some \<lparr> element_id = blockElementId l (block_id block), element_highlighted = h,
            element_onClick = block_id block, element_text = Unchanged (block_text block) \<rparr>"
  by (simp add: BlockHighlighter_def highlightText_def)

lemma renderBlocks_unfiltered:
  assumes "searchQuery st = []" and "filterType st = ''all''" and "highlightedBlockId st = None"
  shows "renderBlocks st doc l = Some (allBlocks doc l)"
proof -
  have "renderPage st l =
          (\<lambda>page. Some \<lparr> page_number = page_index page + 1,
                          page_elements =
                            map (\<lambda>block. \<lparr> element_id = blockElementId l (block_id block),
                                            element_highlighted = False,
                                            element_onClick = block_id block,
                                            element_text = Unchanged (block_text block) \<rparr>)
                                (blocks page) \<rparr>)"
    using assms
    by (intro ext)
       (simp add: renderPage_def filterBlocks_def BlockHighlighter_unfiltered those_map_Some)
  then show ?thesis
    by (simp add: renderBlocks_def allBlocks_def those_map_Some)
qed

lemma resultLoaded_initial:
  "resultLoaded r initialViewerState =
     \<lparr> arabicDoc = arabic r, englishDoc = english r, loading = False, viewerError = None,
       searchQuery = [], filterType = ''all'', highlightedBlockId = None \<rparr>"
  by (simp add: resultLoaded_def initialViewerState_def)

text \<open>
  Claim C6. Once a result with only one of the two documents has been loaded, the viewer
  shows that document in full in its panel and a notice in the other panel; the Arabic
  document is shown whether or not the English one is there; and the \<open>No results
  available\<close> page appears exactly when both are missing.
\<close>

theorem ResultViewer_partial:
  "(arabic r = Some d \<and> english r = None \<longrightarrow>
      ResultViewer (resultLoaded r initialViewerState) =
        Some (Viewer (Rendered (allBlocks d ar)) (NotAvailable ''English document not available'')))
   \<and> (arabic r = None \<and> english r = Some d \<longrightarrow>
      ResultViewer (resultLoaded r initialViewerState) =
        Some (Viewer (NotAvailable ''Arabic document not available'') (Rendered (allBlocks d en))))
   \<and> (arabic r = Some d \<longrightarrow>
      (\<exists>p. ResultViewer (resultLoaded r initialViewerState)
             = Some (Viewer (Rendered (allBlocks d ar)) p)))
   \<and> ((\<exists>m. ResultViewer (resultLoaded r initialViewerState) = Some (NoResults m))
        \<longleftrightarrow> arabic r = None \<and> english r = None)"
proof -
  let ?st = "resultLoaded r initialViewerState"
  have rb: "renderBlocks ?st doc l = Some (allBlocks doc l)" for doc l
    by (rule renderBlocks_unfiltered) (simp_all add: resultLoaded_initial)
  have v: "ResultViewer ?st =
     (if arabic r = None \<and> english r = None
        then Some (NoResults ''No results available for this job.'')
      else Some (Viewer
             (case arabic r of
                Some doc \<Rightarrow> Rendered (allBlocks doc ar)
              | None \<Rightarrow> NotAvailable ''Arabic document not available'')
             (case english r of
                Some doc \<Rightarrow> Rendered (allBlocks doc en)
              | None \<Rightarrow> NotAvailable ''English document not available'')))"
    unfolding ResultViewer_def rb
    by (simp add: resultLoaded_initial truthy_def split: option.splits)
  show ?thesis unfolding v by (auto split: option.splits)
qed

theorem ResultViewer_partial_witness:
  "arabic (sampleResult (Some (sampleDocument ''ar'' [sampleBlock ''b1'' ''paragraph'' ''salam''])) None)
     = Some (sampleDocument ''ar'' [sampleBlock ''b1'' ''paragraph'' ''salam''])
   \<and> english (sampleResult (Some (sampleDocument ''ar'' [sampleBlock ''b1'' ''paragraph'' ''salam''])) None)
     = None
   \<and> ResultViewer (resultLoaded
        (sampleResult (Some (sampleDocument ''ar'' [sampleBlock ''b1'' ''paragraph'' ''salam''])) None)
        initialViewerState)
      = Some (Viewer (Rendered [\<lparr> page_number = 1,
                            page_elements = [\<lparr> element_id = ''block-ar-b1'',
                                               element_highlighted = False,
                                               element_onClick = ''b1'',
                                               element_text = Unchanged ''salam'' \<rparr>] \<rparr>])
               (NotAvailable ''English document not available''))
   \<and> arabic (sampleResult None (Some (sampleDocument ''en'' []))) = None
   \<and> english (sampleResult None (Some (sampleDocument ''en'' []))) = Some (sampleDocument ''en'' [])
   \<and> ResultViewer (resultLoaded (sampleResult None (Some (sampleDocument ''en'' []))) initialViewerState)
      = Some (Viewer (NotAvailable ''Arabic document not available'')
               (Rendered [\<lparr> page_number = 1, page_elements = [] \<rparr>]))
   \<and> ResultViewer (resultLoaded (sampleResult None None) initialViewerState)
      = Some (NoResults ''No results available for this job.'')"
proof -
  have a: "allBlocks (sampleDocument ''ar'' [sampleBlock ''b1'' ''paragraph'' ''salam'']) ar
            = [\<lparr> page_number = 1,
                 page_elements = [\<lparr> element_id = ''block-ar-b1'',
                                    element_highlighted = False,
                                    element_onClick = ''b1'',
                                    element_text = Unchanged ''salam'' \<rparr>] \<rparr>]"
    by (simp add: allBlocks_def sampleDocument_def sampleBlock_def blockElementId_def languageTag_def)
  have e: "allBlocks (sampleDocument ''en'' []) en = [\<lparr> page_number = 1, page_elements = [] \<rparr>]"
    by (simp add: allBlocks_def sampleDocument_def)
  have n: "ResultViewer (resultLoaded (sampleResult None None) initialViewerState)
      = Some (NoResults ''No results available for this job.'')"
    by (simp add: resultLoaded_initial ResultViewer_def sampleResult_def truthy_def)
  show ?thesis
    using ResultViewer_partial [of "sampleResult (Some (sampleDocument ''ar'' [sampleBlock ''b1'' ''paragraph'' ''salam''])) None"
            "sampleDocument ''ar'' [sampleBlock ''b1'' ''paragraph'' ''salam'']"]
          ResultViewer_partial [of "sampleResult None (Some (sampleDocument ''en'' []))"
            "sampleDocument ''en'' []"]
          n
    by (simp add: a e sampleResult_def)
qed


section \<open>Block correspondence: results\<close>




















text \<open>
  A query that does not compile takes the viewer down as soon as a block is rendered
  with it.
\<close>

lemma ResultViewer_pattern_error:
  "ResultViewer
     ((resultLoaded
         (sampleResult (Some (sampleDocument ''ar'' [sampleBlock ''b1'' ''paragraph'' ''f(x)''])) None)
         initialViewerState) \<lparr> searchQuery := ''('' \<rparr>) = None"
  by code_simp




end
